theory Spec2Isabelle
  imports Main "HOL-Library.Sublist"
begin

section \<open>AI Benchmark Explorer: record store, filter panel, pagination, selection\<close>

text \<open>
  A shallow embedding of \<^verbatim>\<open>src/app.py\<close>. A pandas data frame is a list of rows in
  frame order; a cell that pandas reads as NaN (an empty CSV field) is \<open>None\<close>. A Python
  \<^verbatim>\<open>str\<close> is a \<open>string\<close> whose characters stand for the code points 0 to 255.
  Every exception the modelled lines can raise is a value of \<open>py_error\<close>.
\<close>

subsection \<open>Python string helpers\<close>

definition is_space :: "char \<Rightarrow> bool" where
  \<comment> \<open>\<^verbatim>\<open>str.isspace\<close> on the code points below 256\<close>
  "is_space c = (of_char c \<in> {9, 10, 11, 12, 13, 28, 29, 30, 31, 32, 133, 160 :: nat})"

definition py_strip :: "string \<Rightarrow> string" where
  \<comment> \<open>\<^verbatim>\<open>s.strip()\<close>\<close>
  "py_strip s = rev (dropWhile is_space (rev (dropWhile is_space s)))"

fun py_split :: "char \<Rightarrow> string \<Rightarrow> string list" where
  \<comment> \<open>\<^verbatim>\<open>s.split(sep)\<close> for a one-character separator; the result is never empty\<close>
  "py_split sep [] = [[]]"
| "py_split sep (c # cs) =
     (if c = sep then [] # py_split sep cs
      else (case py_split sep cs of
              [] \<Rightarrow> [[c]]
            | t # ts \<Rightarrow> (c # t) # ts))"

subsection \<open>Record store (\<^verbatim>\<open>load_data\<close>, lines 111-126)\<close>

record csv_row =
  dataset_id :: string
  task :: "string option"
  area :: "string option"
  modalities :: "string option"
  associated_tasks :: "string option"
  benchmark_urls :: "string option"
  year_published :: "int option"
  license :: "string option"
  languages :: "string option"
  description :: "string option"

record dataset_record = csv_row +
  benchmark_cnt :: nat
  associated_task_cnt :: nat

text \<open>
  \<open>ValueError\<close> is \<^verbatim>\<open>int(nan)\<close>, \<open>IndexError\<close> is \<^verbatim>\<open>.iloc[0]\<close> on an empty frame,
  \<open>ReError\<close> is \<^verbatim>\<open>re.error\<close>, \<open>ReadError\<close> is any exception of \<^verbatim>\<open>pd.read_csv\<close>.
  \<open>OutsideFragment\<close> is no Python exception: it marks a search pattern that the modelled
  fragment of \<^verbatim>\<open>re\<close> does not cover.
\<close>

datatype py_error =
    ValueError | IndexError | ZeroDivisionError | ReError | OutsideFragment | ReadError

definition cnt_lambda :: "string option \<Rightarrow> nat" where
  \<comment> \<open>\<^verbatim>\<open>lambda x: len([url for url in str(x).split(',') if url.strip()]) if pd.notna(x) else 0\<close>\<close>
  "cnt_lambda x =
     (case x of
        None \<Rightarrow> 0
      | Some s \<Rightarrow> length [url \<leftarrow> py_split CHR '','' s. py_strip url \<noteq> []])"

definition add_counts :: "csv_row \<Rightarrow> dataset_record" where
  "add_counts r =
     csv_row.extend r
       (dataset_record.fields (cnt_lambda (benchmark_urls r)) (cnt_lambda (associated_tasks r)))"

definition load_data :: "py_error + csv_row list \<Rightarrow> dataset_record list" where
  \<comment> \<open>the argument is the outcome of \<^verbatim>\<open>pd.read_csv\<close>; any exception gives the empty frame\<close>
  "load_data src = (case src of Inl e \<Rightarrow> [] | Inr rows \<Rightarrow> map add_counts rows)"

definition parsed_tokens :: "string \<Rightarrow> string list" where
  \<comment> \<open>the data model's parsing rule, as in lines 146, 225 and 238:
      \<^verbatim>\<open>[m.strip() for m in s.split(',') if m.strip()]\<close>\<close>
  "parsed_tokens s = [py_strip m. m \<leftarrow> py_split CHR '','' s, py_strip m \<noteq> []]"

definition spec_token_count :: "string option \<Rightarrow> nat" where
  \<comment> \<open>the specification's wording: the number of non-empty trimmed comma-separated tokens,
      zero for an absent field\<close>
  "spec_token_count x = (case x of None \<Rightarrow> 0 | Some s \<Rightarrow> length (parsed_tokens s))"

subsection \<open>Filter panel (\<^verbatim>\<open>create_filter_panel\<close>, lines 129-180)\<close>

text \<open>
  The values the sidebar widgets return in one run; the widget calls themselves belong to
  Streamlit and are not modelled. \<open>selected_task\<close> is the task after line 137 has removed
  the count suffix; \<open>''All''\<close> is the sentinel of both select boxes.
\<close>

record filter_inputs =
  selected_task :: string
  selected_area :: string
  selected_modalities :: "string list"
  year_range :: "int \<times> int"
  search_term :: string

definition year_bounds :: "dataset_record list \<Rightarrow> py_error + int \<times> int" where
  \<comment> \<open>lines 151-152; with no year at all \<^verbatim>\<open>years.min()\<close> is NaN and \<^verbatim>\<open>int\<close> raises\<close>
  "year_bounds df =
     (case List.map_filter year_published df of
        [] \<Rightarrow> Inl ValueError
      | y # ys \<Rightarrow> Inr (fold min ys y, fold max ys y))"

definition task_step :: "filter_inputs \<Rightarrow> dataset_record list \<Rightarrow> dataset_record list" where
  \<comment> \<open>lines 161-162\<close>
  "task_step w rows =
     (if selected_task w \<noteq> ''All'' then [r \<leftarrow> rows. task r = Some (selected_task w)] else rows)"

definition area_step :: "filter_inputs \<Rightarrow> dataset_record list \<Rightarrow> dataset_record list" where
  \<comment> \<open>lines 164-165\<close>
  "area_step w rows =
     (if selected_area w \<noteq> ''All'' then [r \<leftarrow> rows. area r = Some (selected_area w)] else rows)"

definition modality_lambda :: "string list \<Rightarrow> string option \<Rightarrow> bool" where
  \<comment> \<open>line 169:
      \<^verbatim>\<open>any(mod.strip() in str(x).split(',') for mod in selected_modalities) if pd.notna(x) else False\<close>\<close>
  "modality_lambda sel x =
     (case x of
        None \<Rightarrow> False
      | Some s \<Rightarrow> list_ex (\<lambda>m. py_strip m \<in> set (py_split CHR '','' s)) sel)"

definition modality_step :: "filter_inputs \<Rightarrow> dataset_record list \<Rightarrow> dataset_record list" where
  \<comment> \<open>lines 167-170\<close>
  "modality_step w rows =
     (if selected_modalities w \<noteq> []
      then [r \<leftarrow> rows. modality_lambda (selected_modalities w) (modalities r)]
      else rows)"

definition year_mask :: "int \<times> int \<Rightarrow> int option \<Rightarrow> bool" where
  \<comment> \<open>lines 173-174; a comparison with NaN is false\<close>
  "year_mask yr y = (case y of None \<Rightarrow> False | Some v \<Rightarrow> fst yr \<le> v \<and> v \<le> snd yr)"

definition year_step :: "filter_inputs \<Rightarrow> dataset_record list \<Rightarrow> dataset_record list" where
  \<comment> \<open>lines 172-175, applied in every run\<close>
  "year_step w rows = [r \<leftarrow> rows. year_mask (year_range w) (year_published r)]"

text \<open>
  \<^verbatim>\<open>Series.str.contains(pat, case=False)\<close> belongs to pandas, not to this repository: it
  compiles \<open>pat\<close> as a regular expression (\<^verbatim>\<open>regex=True\<close> is the default), which may raise,
  and then tests every cell. It is a parameter \<open>contains\<close> of the model: \<open>contains pat\<close> is
  the error or the test on one cell.
\<close>

definition search_step ::
  "(string \<Rightarrow> py_error + (string \<Rightarrow> bool)) \<Rightarrow> filter_inputs \<Rightarrow> dataset_record list
     \<Rightarrow> py_error + dataset_record list" where
  \<comment> \<open>lines 177-178\<close>
  "search_step contains w rows =
     (if search_term w \<noteq> []
      then (case contains (search_term w) of
              Inl e \<Rightarrow> Inl e
            | Inr hit \<Rightarrow> Inr [r \<leftarrow> rows. hit (dataset_id r)])
      else Inr rows)"

definition create_filter_panel ::
  "(string \<Rightarrow> py_error + (string \<Rightarrow> bool)) \<Rightarrow> dataset_record list \<Rightarrow> filter_inputs
     \<Rightarrow> py_error + dataset_record list" where
  "create_filter_panel contains df w =
     (case year_bounds df of
        Inl e \<Rightarrow> Inl e
      | Inr b \<Rightarrow> search_step contains w (year_step w (modality_step w (area_step w (task_step w df)))))"

definition spec_modality_match :: "string list \<Rightarrow> string option \<Rightarrow> bool" where
  \<comment> \<open>the specification's wording: some parsed (comma-split, trimmed) token of the record
      equals some selected tag; a record without modality data never matches\<close>
  "spec_modality_match sel x =
     (case x of
        None \<Rightarrow> False
      | Some s \<Rightarrow> list_ex (\<lambda>t. t \<in> set sel) (parsed_tokens s))"

subsection \<open>A fragment of Python's \<^verbatim>\<open>re\<close> for \<^verbatim>\<open>str.contains\<close>\<close>

text \<open>
  The fragment: a pattern is a sequence of atoms, each followed by at most one of the
  quantifiers \<open>*\<close>, \<open>+\<close>, \<open>?\<close>. An atom is an ordinary character, the dot (any character but
  a newline) or a backslash before a character that is not an ASCII letter or digit.
  A quantifier with nothing before it and a backslash at the end of the pattern raise
  \<^verbatim>\<open>re.error\<close>, here \<open>ReError\<close>. Every other construct (groups, alternation, classes,
  anchors, braces, stacked quantifiers, letter or digit escapes) is outside the fragment
  and reported as \<open>OutsideFragment\<close>. Matching ignores case (\<^verbatim>\<open>re.IGNORECASE\<close>).
\<close>

datatype re_atom = Lit char | AnyChar

datatype re_quant = One | Opt | Star | Plus

datatype re_last = NoItem | Plain | Quantified

definition ci_lower :: "char \<Rightarrow> char" where
  \<comment> \<open>simple lower case on the code points below 256\<close>
  "ci_lower c =
     (let n = (of_char c :: nat)
      in if (65 \<le> n \<and> n \<le> 90) \<or> (192 \<le> n \<and> n \<le> 222 \<and> n \<noteq> 215)
         then char_of (n + 32) else c)"

definition is_ascii_alnum :: "char \<Rightarrow> bool" where
  "is_ascii_alnum c =
     (let n = (of_char c :: nat)
      in (48 \<le> n \<and> n \<le> 57) \<or> (65 \<le> n \<and> n \<le> 90) \<or> (97 \<le> n \<and> n \<le> 122))"

definition re_quant_of :: "char \<Rightarrow> re_quant option" where
  "re_quant_of c =
     (if c = CHR ''*'' then Some Star
      else if c = CHR ''+'' then Some Plus
      else if c = CHR ''?'' then Some Opt
      else None)"

fun re_parse :: "(re_atom \<times> re_quant) list \<Rightarrow> re_last \<Rightarrow> string
                   \<Rightarrow> py_error + (re_atom \<times> re_quant) list" where
  \<comment> \<open>the items read so far are kept in reverse\<close>
  "re_parse acc prev [] = Inr (rev acc)"
| "re_parse acc prev (c # cs) =
     (case re_quant_of c of
        Some q \<Rightarrow>
          (case prev of
             NoItem \<Rightarrow> Inl ReError
           | Quantified \<Rightarrow> Inl OutsideFragment
           | Plain \<Rightarrow>
               (case acc of
                  [] \<Rightarrow> Inl ReError
                | (a, _) # acc' \<Rightarrow> re_parse ((a, q) # acc') Quantified cs))
      | None \<Rightarrow>
          if c = CHR 0x5C then
            (case cs of
               [] \<Rightarrow> Inl ReError
             | d # ds \<Rightarrow>
                 if is_ascii_alnum d then Inl OutsideFragment
                 else re_parse ((Lit d, One) # acc) Plain ds)
          else if c = CHR ''.'' then re_parse ((AnyChar, One) # acc) Plain cs
          else if c \<in> set ''[{()^$|'' then Inl OutsideFragment
          else re_parse ((Lit c, One) # acc) Plain cs)"

fun atom_ok :: "re_atom \<Rightarrow> char \<Rightarrow> bool" where
  "atom_ok (Lit l) c = (ci_lower l = ci_lower c)"
| "atom_ok AnyChar c = (c \<noteq> CHR 0x0A)"

fun re_match_here :: "(re_atom \<times> re_quant) list \<Rightarrow> string \<Rightarrow> bool" where
  \<comment> \<open>some prefix of the string matches the items\<close>
  "re_match_here [] s = True"
| "re_match_here ((a, One) # r) s =
     (case s of [] \<Rightarrow> False | c # cs \<Rightarrow> atom_ok a c \<and> re_match_here r cs)"
| "re_match_here ((a, Opt) # r) s =
     (re_match_here r s \<or> (case s of [] \<Rightarrow> False | c # cs \<Rightarrow> atom_ok a c \<and> re_match_here r cs))"
| "re_match_here ((a, Star) # r) s =
     (re_match_here r s
      \<or> (case s of [] \<Rightarrow> False | c # cs \<Rightarrow> atom_ok a c \<and> re_match_here ((a, Star) # r) cs))"
| "re_match_here ((a, Plus) # r) s =
     (case s of [] \<Rightarrow> False | c # cs \<Rightarrow> atom_ok a c \<and> re_match_here ((a, Star) # r) cs)"

fun re_search :: "(re_atom \<times> re_quant) list \<Rightarrow> string \<Rightarrow> bool" where
  \<comment> \<open>\<^verbatim>\<open>pattern.search(s) is not None\<close>: a match starting at some position\<close>
  "re_search items [] = re_match_here items []"
| "re_search items (c # cs) = (re_match_here items (c # cs) \<or> re_search items cs)"

definition str_contains :: "string \<Rightarrow> py_error + (string \<Rightarrow> bool)" where
  "str_contains pat =
     (case re_parse [] NoItem pat of Inl e \<Rightarrow> Inl e | Inr items \<Rightarrow> Inr (re_search items))"

fun spec_literal_ci_substring :: "string \<Rightarrow> string \<Rightarrow> bool" where
  \<comment> \<open>the specification's wording: \<open>t\<close> occurs in \<open>s\<close> as a literal substring, ignoring case\<close>
  "spec_literal_ci_substring t [] = (t = [])"
| "spec_literal_ci_substring t (c # cs) =
     (prefix (map ci_lower t) (map ci_lower (c # cs)) \<or> spec_literal_ci_substring t cs)"

subsection \<open>Pagination and selection (\<^verbatim>\<open>main\<close>, lines 266-284 and 350-423)\<close>

record session_state =
  current_page :: int
  selected_dataset_id :: "string option"

definition initial_state :: session_state where
  \<comment> \<open>lines 274-275 and 291-292\<close>
  "initial_state = \<lparr>current_page = 1, selected_dataset_id = None\<rparr>"


definition math_ceil_div :: "nat \<Rightarrow> int \<Rightarrow> py_error + int" where
  \<comment> \<open>\<^verbatim>\<open>math.ceil(len(filtered_df) / page_size)\<close>; the float quotient is exact enough for
      the ceiling at every frame length a machine can hold\<close>
  "math_ceil_div n d = (if d = 0 then Inl ZeroDivisionError else Inr (- ((- int n) div d)))"

definition iloc_slice :: "'r list \<Rightarrow> int \<Rightarrow> int \<Rightarrow> 'r list" where
  \<comment> \<open>\<^verbatim>\<open>df.iloc[start:stop]\<close>: Python slice bounds, negative ones count from the end,
      both are clamped to the length\<close>
  "iloc_slice xs start stop =
     (let n = int (length xs);
          s = (if start < 0 then max (start + n) 0 else min start n);
          e = (if stop < 0 then max (stop + n) 0 else min stop n)
      in take (nat (e - s)) (drop (nat s) xs))"

record 'r page_view =
  total_pages :: int
  start_idx :: int
  end_idx :: int
  page_data :: "'r list"

definition paginate :: "'r list \<Rightarrow> int \<Rightarrow> session_state \<Rightarrow> py_error + session_state \<times> 'r page_view" where
  \<comment> \<open>lines 271-284\<close>
  "paginate filtered_df page_size st =
     (case math_ceil_div (length filtered_df) page_size of
        Inl e \<Rightarrow> Inl e
      | Inr tp \<Rightarrow>
          (let cp = (if current_page st > tp then 1 else current_page st);
               start = (cp - 1) * page_size;
               stop = start + page_size
           in Inr (st\<lparr>current_page := cp\<rparr>,
                   \<lparr>total_pages = tp, start_idx = start, end_idx = stop,
                    page_data = iloc_slice filtered_df start stop\<rparr>)))"




definition selected_row :: "dataset_record list \<Rightarrow> session_state \<Rightarrow> py_error + dataset_record option" where
  \<comment> \<open>lines 420-423: the row handed to \<^verbatim>\<open>show_dataset_details\<close>, \<open>None\<close> when nothing is
      shown; \<^verbatim>\<open>None\<close> and the empty string are falsy; \<^verbatim>\<open>.iloc[0]\<close> of an empty frame raises\<close>
  "selected_row df st =
     (case selected_dataset_id st of
        None \<Rightarrow> Inr None
      | Some sel \<Rightarrow>
          if sel = [] then Inr None
          else (case [r \<leftarrow> df. dataset_id r = sel] of
                  [] \<Rightarrow> Inl IndexError
                | r # _ \<Rightarrow> Inr (Some r)))"

subsection \<open>A small source file used for concrete runs\<close>

definition example_csv :: "csv_row list" where
  "example_csv =
     [\<lparr>dataset_id = ''alpha'', task = Some ''QA'', area = Some ''NLP'',
       modalities = Some ''Image'', associated_tasks = None,
       benchmark_urls = Some ''http://a, http://b,'', year_published = Some 2019,
       license = None, languages = None, description = None\<rparr>,
      \<lparr>dataset_id = ''beta'', task = Some ''QA'', area = None,
       modalities = None, associated_tasks = Some ''  '',
       benchmark_urls = None, year_published = None,
       license = None, languages = None, description = None\<rparr>,
      \<lparr>dataset_id = ''gamma'', task = Some ''OCR'', area = Some ''Vision'',
       modalities = Some ''Text, Image'', associated_tasks = Some ''a,b'',
       benchmark_urls = Some ''http://c'', year_published = Some 2021,
       license = None, languages = None, description = None\<rparr>]"

definition example_table :: "dataset_record list" where
  "example_table = load_data (Inr example_csv)"

definition no_filter :: filter_inputs where
  \<comment> \<open>the widgets' defaults over \<open>example_table\<close>, whose years run from 2019 to 2021\<close>
  "no_filter = \<lparr>selected_task = ''All'', selected_area = ''All'', selected_modalities = [],
                 year_range = (2019, 2021), search_term = []\<rparr>"

section \<open>Properties\<close>

subsection \<open>Derived counts\<close>

lemma cnt_lambda_spec: "cnt_lambda x = spec_token_count x"
proof (cases x)
  case None
  then show ?thesis by (simp add: cnt_lambda_def spec_token_count_def)
next
  case (Some s)
  have "length [py_strip m. m \<leftarrow> ts, py_strip m \<noteq> []]
          = length [url \<leftarrow> ts. py_strip url \<noteq> []]" for ts
    by (induction ts) simp_all
  with Some show ?thesis
    by (simp add: cnt_lambda_def spec_token_count_def parsed_tokens_def)
qed

lemma split_no_sep: "sep \<notin> set s \<Longrightarrow> py_split sep s = [s]"
  by (induction s) auto

lemma strip_blank:
  assumes "\<forall>c\<in>set t. is_space c"
  shows "py_strip t = []"
proof -
  from assms have d: "dropWhile is_space t = []" by simp
  show ?thesis unfolding py_strip_def d by simp
qed

lemma add_counts_fields:
  "benchmark_cnt (add_counts r) = cnt_lambda (benchmark_urls r)"
  "associated_task_cnt (add_counts r) = cnt_lambda (associated_tasks r)"
  "benchmark_urls (add_counts r) = benchmark_urls r"
  "associated_tasks (add_counts r) = associated_tasks r"
  "dataset_id (add_counts r) = dataset_id r"
  by (simp_all add: add_counts_def csv_row.defs dataset_record.defs)

lemma blank_count:
  assumes "\<forall>c\<in>set s. is_space c"
  shows "cnt_lambda (Some s) = 0"
proof -
  have "\<not> is_space CHR '',''" by (simp add: is_space_def)
  with assms have "CHR '','' \<notin> set s" by blast
  then have "py_split CHR '','' s = [s]" by (rule split_no_sep)
  with assms show ?thesis by (simp add: cnt_lambda_def strip_blank)
qed

lemma example_ids: "map dataset_id example_table = [''alpha'', ''beta'', ''gamma'']"
  by code_simp

text \<open>
  Claim C10. In every row of the loaded table, \<open>benchmark_cnt\<close> and \<open>associated_task_cnt\<close>
  are the number of non-empty trimmed comma-separated tokens of \<open>benchmark_urls\<close> and
  \<open>associated_tasks\<close>; the field \<^verbatim>\<open>"http://a, http://b,"\<close> counts 2; an absent field and a
  field of blanks count 0. \<open>load_data\<close> has no failing outcome.
\<close>

theorem derived_counts_are_token_counts:
  "(\<forall>r \<in> set (load_data src).
      benchmark_cnt r = spec_token_count (benchmark_urls r)
      \<and> associated_task_cnt r = spec_token_count (associated_tasks r))
   \<and> cnt_lambda (Some ''http://a, http://b,'') = 2
   \<and> cnt_lambda None = 0
   \<and> ((\<forall>c \<in> set s. is_space c) \<longrightarrow> cnt_lambda (Some s) = 0)"
proof -
  have rows: "\<forall>r \<in> set (load_data src).
      benchmark_cnt r = spec_token_count (benchmark_urls r)
      \<and> associated_task_cnt r = spec_token_count (associated_tasks r)"
    by (cases src) (auto simp: load_data_def add_counts_fields cnt_lambda_spec)
  have ex: "cnt_lambda (Some ''http://a, http://b,'') = 2"
    by code_simp
  have absent: "cnt_lambda None = 0"
    by (simp add: cnt_lambda_def)
  from rows ex absent blank_count show ?thesis by blast
qed

theorem derived_counts_witness:
  "set (load_data (Inr example_csv)) \<noteq> {}
   \<and> map benchmark_cnt (load_data (Inr example_csv)) = [2, 0, 1]
   \<and> map (spec_token_count \<circ> benchmark_urls) (load_data (Inr example_csv)) = [2, 0, 1]
   \<and> is_space CHR '' '' \<and> cnt_lambda (Some ''  '') = 0"
proof -
  have sp: "is_space CHR '' ''" by (simp add: is_space_def)
  have a: "set (load_data (Inr example_csv)) \<noteq> {}"
    by (simp add: load_data_def example_csv_def)
  have b: "map benchmark_cnt (load_data (Inr example_csv)) = [2, 0, 1]" by code_simp
  have "map (spec_token_count \<circ> benchmark_urls) (load_data (Inr example_csv))
          = map benchmark_cnt (load_data (Inr example_csv))"
    using derived_counts_are_token_counts [of "Inr example_csv" "''  ''"] by simp
  with a b sp derived_counts_are_token_counts [of "Inr example_csv" "''  ''"]
  show ?thesis by simp
qed

subsection \<open>The filter panel returns a subsequence\<close>

lemma pipeline_is_filter:
  "\<exists>P. year_step w (modality_step w (area_step w (task_step w df))) = filter P df"
proof -
  have t: "\<exists>P. task_step w df = filter P df"
    by (cases "selected_task w \<noteq> ''All''")
       (auto simp: task_step_def intro: exI [of _ "\<lambda>_. True"])
  have a: "\<exists>P. area_step w rows = filter P rows" for rows
    by (cases "selected_area w \<noteq> ''All''")
       (auto simp: area_step_def intro: exI [of _ "\<lambda>_. True"])
  have m: "\<exists>P. modality_step w rows = filter P rows" for rows
    by (cases "selected_modalities w \<noteq> []")
       (auto simp: modality_step_def intro: exI [of _ "\<lambda>_. True"])
  have y: "\<exists>P. year_step w rows = filter P rows" for rows
    by (auto simp: year_step_def)
  from t obtain P1 where 1: "task_step w df = filter P1 df" ..
  from a obtain P2 where 2: "area_step w (filter P1 df) = filter P2 (filter P1 df)" ..
  from m obtain P3 where
    3: "modality_step w (filter P2 (filter P1 df)) = filter P3 (filter P2 (filter P1 df))" ..
  from y obtain P4 where
    4: "year_step w (filter P3 (filter P2 (filter P1 df)))
          = filter P4 (filter P3 (filter P2 (filter P1 df)))" ..
  from 1 2 3 4 show ?thesis by (simp del: filter_filter) (metis filter_filter)
qed

lemma create_filter_panel_Inr:
  assumes "create_filter_panel contains df w = Inr res"
  shows "\<exists>P. res = filter P df"
proof -
  obtain P where P: "year_step w (modality_step w (area_step w (task_step w df))) = filter P df"
    using pipeline_is_filter by blast
  from assms have s: "search_step contains w (filter P df) = Inr res"
    by (auto simp: create_filter_panel_def P split: sum.splits)
  show ?thesis
  proof (cases "search_term w = []")
    case True
    with s show ?thesis by (auto simp: search_step_def)
  next
    case False
    with s obtain hit where "res = filter hit (filter P df)"
      by (auto simp: search_step_def split: sum.splits)
    then show ?thesis by (metis filter_filter)
  qed
qed

lemma year_bounds_Inl:
  "year_bounds df = Inl e \<Longrightarrow> e = ValueError \<and> (\<forall>r \<in> set df. year_published r = None)"
  by (auto simp: year_bounds_def List.map_filter_def filter_empty_conv split: list.splits)

lemma create_filter_panel_Inl:
  assumes "create_filter_panel contains df w = Inl e"
  shows "(e = ValueError \<and> (\<forall>r \<in> set df. year_published r = None))
         \<or> (search_term w \<noteq> [] \<and> contains (search_term w) = Inl e)"
proof (cases "year_bounds df")
  case (Inl e')
  with assms have "e' = e" by (simp add: create_filter_panel_def)
  with Inl year_bounds_Inl show ?thesis by blast
next
  case (Inr b)
  with assms show ?thesis
    by (auto simp: create_filter_panel_def search_step_def split: if_splits sum.splits)
qed

lemma create_filter_panel_no_search:
  "search_term w = [] \<Longrightarrow> create_filter_panel c1 df w = create_filter_panel c2 df w"
  by (simp add: create_filter_panel_def search_step_def split: sum.splits)

text \<open>
  Claim C9. Whatever the table and the criteria, a result of \<open>create_filter_panel\<close> is a
  subsequence of the table: its rows are rows of the table in their original order, its
  dataset ids are among the table's, and unique ids stay unique. The call returns such a
  result in every case but two: the table holds no year at all (line 152 raises), or the
  search string is non-empty and \<^verbatim>\<open>str.contains\<close> rejects it.
\<close>

theorem create_filter_panel_subsequence:
  "(case create_filter_panel contains df w of
      Inr res \<Rightarrow>
        subseq res df
        \<and> set (map dataset_id res) \<subseteq> set (map dataset_id df)
        \<and> (distinct (map dataset_id df) \<longrightarrow> distinct (map dataset_id res))
    | Inl e \<Rightarrow>
        (e = ValueError \<and> (\<forall>r \<in> set df. year_published r = None))
        \<or> (search_term w \<noteq> [] \<and> contains (search_term w) = Inl e))"
proof (cases "create_filter_panel contains df w")
  case (Inl e)
  with create_filter_panel_Inl [OF Inl] show ?thesis by simp
next
  case (Inr res)
  from create_filter_panel_Inr [OF Inr] obtain P where "res = filter P df" ..
  with Inr show ?thesis by (auto simp: distinct_map_filter)
qed

theorem create_filter_panel_subsequence_witness:
  "create_filter_panel str_contains example_table (no_filter\<lparr>search_term := ''A.p''\<rparr>)
     = Inr [example_table ! 0]
   \<and> subseq [example_table ! 0] example_table
   \<and> distinct (map dataset_id example_table)
   \<and> distinct (map dataset_id [example_table ! 0])"
proof -
  have run: "create_filter_panel str_contains example_table (no_filter\<lparr>search_term := ''A.p''\<rparr>)
               = Inr [example_table ! 0]"
    by code_simp
  have d: "distinct (map dataset_id example_table)"
    by (simp add: example_ids)
  from create_filter_panel_subsequence
         [where contains = str_contains and df = example_table
            and w = "no_filter\<lparr>search_term := ''A.p''\<rparr>"] run d
  show ?thesis by simp
qed

subsection \<open>Default criteria and the year range\<close>

lemma fold_min_le: "v \<in> set (y # ys) \<Longrightarrow> fold min ys y \<le> (v::int)"
  by (simp add: Min.set_eq_fold [symmetric])

lemma fold_max_ge: "v \<in> set (y # ys) \<Longrightarrow> (v::int) \<le> fold max ys y"
  by (simp add: Max.set_eq_fold [symmetric])

lemma year_step_member:
  "r \<in> set (year_step w rows) \<longleftrightarrow>
     r \<in> set rows
     \<and> (\<exists>y. year_published r = Some y \<and> fst (year_range w) \<le> y \<and> y \<le> snd (year_range w))"
  by (auto simp: year_step_def year_mask_def split: option.splits)

lemma default_criteria_identity_when_years_present:
  assumes "\<forall>r \<in> set df. year_published r \<noteq> None" and "year_bounds df = Inr b"
    and "selected_task w = ''All''" and "selected_area w = ''All''"
    and "selected_modalities w = []" and "year_range w = b" and "search_term w = []"
  shows "create_filter_panel contains df w = Inr df"
proof -
  from assms(2) obtain y ys where ys: "List.map_filter year_published df = y # ys"
    and b: "b = (fold min ys y, fold max ys y)"
    by (auto simp: year_bounds_def split: list.splits)
  have "year_mask b (year_published r)" if "r \<in> set df" for r
  proof -
    from that assms(1) obtain v where v: "year_published r = Some v" by auto
    with that have "v \<in> set (List.map_filter year_published df)"
      by (force simp: List.map_filter_def)
    with ys have "v \<in> set (y # ys)" by simp
    with fold_min_le fold_max_ge b v show ?thesis by (simp add: year_mask_def)
  qed
  then have "[r \<leftarrow> df. year_mask b (year_published r)] = df" by (simp add: filter_id_conv)
  with assms show ?thesis
    by (simp add: create_filter_panel_def search_step_def year_step_def modality_step_def
          area_step_def task_step_def)
qed

text \<open>
  Claim C1. The claim says that the default criteria return the table unchanged, rows
  without a year included. In \<open>example_table\<close> the row \<open>beta\<close> has no year; under the
  defaults (both select boxes on \<open>All\<close>, no modality, the full year range 2019-2021, empty
  search) the year comparison of lines 172-175 still runs and removes \<open>beta\<close>.
\<close>

theorem default_criteria_drop_missing_year:
  "year_bounds example_table = Inr (year_range no_filter)
   \<and> map_sum id (map dataset_id) (create_filter_panel contains example_table no_filter)
       = Inr [''alpha'', ''gamma'']
   \<and> create_filter_panel contains example_table no_filter \<noteq> Inr example_table"
proof -
  have a: "year_bounds example_table = Inr (year_range no_filter)" by code_simp
  have "map_sum id (map dataset_id) (create_filter_panel str_contains example_table no_filter)
          = Inr [''alpha'', ''gamma'']"
    by code_simp
  moreover have "search_term no_filter = []" by (simp add: no_filter_def)
  ultimately have b:
    "map_sum id (map dataset_id) (create_filter_panel contains example_table no_filter)
       = Inr [''alpha'', ''gamma'']"
    using create_filter_panel_no_search [of no_filter contains example_table str_contains]
    by simp
  have "map_sum id (map dataset_id) (Inr example_table :: py_error + dataset_record list)
          \<noteq> Inr [''alpha'', ''gamma'']"
    by (simp add: example_ids)
  with b have c: "create_filter_panel contains example_table no_filter \<noteq> Inr example_table"
    by metis
  from a b c show ?thesis by simp
qed

lemma year_mask_inclusive:
  "year_mask (lo, hi) (Some y) \<longleftrightarrow> lo \<le> y \<and> y \<le> hi"
  "\<not> year_mask yr None"
  by (simp_all add: year_mask_def)

text \<open>
  Claim C2. The claim says that the bounds are inclusive and that a row without a year is
  excluded exactly when the active range is narrower than the observed one. In
  \<open>example_table\<close> the observed range is 2019-2021; with that full range active the rows at
  both bounds stay and the row \<open>beta\<close>, which has no year, is removed all the same.
\<close>

theorem full_year_range_excludes_missing_year:
  "year_bounds example_table = Inr (2019, 2021)
   \<and> map year_published example_table = [Some 2019, None, Some 2021]
   \<and> map dataset_id (year_step (no_filter\<lparr>year_range := (2019, 2021)\<rparr>) example_table)
       = [''alpha'', ''gamma'']"
  by code_simp

subsection \<open>Modality filter\<close>

lemma modality_lambda_None: "\<not> modality_lambda sel None"
  by (simp add: modality_lambda_def)

lemma modality_lambda_sound:
  assumes "\<forall>m \<in> set sel. py_strip m = m \<and> m \<noteq> []" and "modality_lambda sel x"
  shows "spec_modality_match sel x"
proof (cases x)
  case None
  with assms(2) show ?thesis by (simp add: modality_lambda_def)
next
  case (Some s)
  with assms(2) obtain m where m: "m \<in> set sel" "py_strip m \<in> set (py_split CHR '','' s)"
    by (auto simp: modality_lambda_def list_ex_iff)
  with assms(1) have "m \<in> set (py_split CHR '','' s)" "py_strip m = m" "m \<noteq> []" by auto
  then have "m \<in> set (parsed_tokens s)"
    by (force simp: parsed_tokens_def)
  with m(1) Some show ?thesis
    by (auto simp: spec_modality_match_def list_ex_iff)
qed

text \<open>
  Claim C3. The claim says that a record passes a non-empty modality filter exactly when
  one of its trimmed tokens is a selected tag. Line 169 trims the selected tag and
  compares it with the untrimmed pieces of the field: the field \<^verbatim>\<open>"Text, Image"\<close> has the
  token \<open>Image\<close>, yet the piece is \<^verbatim>\<open>" Image"\<close>, so the row \<open>gamma\<close> does not pass the filter
  \<open>Image\<close> and only \<open>alpha\<close> is kept.
\<close>

theorem modality_filter_misses_spaced_token:
  "parsed_tokens ''Text, Image'' = [''Text'', ''Image'']
   \<and> spec_modality_match [''Image''] (Some ''Text, Image'')
   \<and> \<not> modality_lambda [''Image''] (Some ''Text, Image'')
   \<and> map modalities example_table = [Some ''Image'', None, Some ''Text, Image'']
   \<and> map dataset_id (modality_step (no_filter\<lparr>selected_modalities := [''Image'']\<rparr>) example_table)
       = [''alpha'']"
  by code_simp

subsection \<open>Search\<close>

lemma re_parse_plain:
  assumes "\<forall>c \<in> set t. c \<noteq> CHR 0x5C \<and> c \<notin> set ''.[{()*+?^$|''"
  shows "re_parse acc prev t = Inr (rev acc @ map (\<lambda>c. (Lit c, One)) t)"
  using assms
proof (induction t arbitrary: acc prev)
  case Nil
  then show ?case by simp
next
  case (Cons c t)
  then have q: "re_quant_of c = None" by (auto simp: re_quant_of_def)
  from Cons.prems have rest: "\<forall>c \<in> set t. c \<noteq> CHR 0x5C \<and> c \<notin> set ''.[{()*+?^$|''" by simp
  from Cons.prems have c: "c \<noteq> CHR 0x5C" "c \<noteq> CHR ''.''" "c \<notin> set ''[{()^$|''" by auto
  show ?case using q c Cons.IH [OF rest] by simp
qed

lemma re_match_here_plain:
  "re_match_here (map (\<lambda>c. (Lit c, One)) t) s = prefix (map ci_lower t) (map ci_lower s)"
proof (induction t arbitrary: s)
  case Nil
  then show ?case by simp
next
  case (Cons c t)
  then show ?case by (cases s) auto
qed

lemma re_search_plain:
  "re_search (map (\<lambda>c. (Lit c, One)) t) s = spec_literal_ci_substring t s"
  by (induction s) (simp_all add: re_match_here_plain)

lemma str_contains_plain:
  assumes "\<forall>c \<in> set t. c \<noteq> CHR 0x5C \<and> c \<notin> set ''.[{()*+?^$|''"
  shows "str_contains t = Inr (spec_literal_ci_substring t)"
proof -
  have "re_search (map (\<lambda>c. (Lit c, One)) t) = spec_literal_ci_substring t"
    by (rule ext) (rule re_search_plain)
  with re_parse_plain [OF assms, of "[]" NoItem] show ?thesis
    by (simp add: str_contains_def)
qed

text \<open>
  Claim C4. The claim says that a non-empty search string keeps exactly the rows whose
  \<open>dataset_id\<close> contains it as a literal substring, ignoring case, and that no search string
  makes the filter fail. \<^verbatim>\<open>str.contains\<close> reads the string as a regular expression: the
  string \<^verbatim>\<open>*\<close> raises, and the string \<^verbatim>\<open>.\<close> keeps \<open>alpha\<close> and \<open>gamma\<close>, neither of which
  contains a dot.
\<close>

theorem search_is_regex_and_can_raise:
  "create_filter_panel str_contains example_table (no_filter\<lparr>search_term := ''*''\<rparr>) = Inl ReError
   \<and> map_sum id (map dataset_id)
        (create_filter_panel str_contains example_table (no_filter\<lparr>search_term := ''.''\<rparr>))
       = Inr [''alpha'', ''gamma'']
   \<and> \<not> spec_literal_ci_substring ''.'' ''alpha''
   \<and> \<not> spec_literal_ci_substring ''.'' ''gamma''"
  by code_simp

subsection \<open>Selection and detail lookup\<close>

lemma filter_id_empty: "x \<notin> set (map dataset_id df) \<Longrightarrow> [r \<leftarrow> df. dataset_id r = x] = []"
  by (induction df) auto




text \<open>
  Claim C5, as stated: when the selected id is absent from the full table, the lookup is
  treated as "nothing selected". It fails on the code: with \<open>delta\<close> selected, which is no
  row of \<open>example_table\<close>, lines 420-421 do not yield "nothing shown".
\<close>

theorem absent_selection_counterexample:
  "selected_row example_table \<lparr>current_page = 1, selected_dataset_id = Some ''delta''\<rparr>
     \<noteq> Inr None"
  by code_simp

text \<open>
  Claim C5, amended: when the selected id is non-empty and absent from the full table, the
  lookup raises \<^verbatim>\<open>IndexError\<close> (\<^verbatim>\<open>.iloc[0]\<close> on an empty selection), which \<open>main\<close> does not
  catch; only an unset or empty selection is treated as "nothing selected".
\<close>

theorem absent_selection_raises:
  "(selected_dataset_id st = Some x \<and> x \<noteq> [] \<and> x \<notin> set (map dataset_id df)
      \<longrightarrow> selected_row df st = Inl IndexError)
   \<and> (selected_dataset_id st = None \<or> selected_dataset_id st = Some []
      \<longrightarrow> selected_row df st = Inr None)"
  by (auto simp: selected_row_def filter_id_empty)

theorem absent_selection_raises_witness:
  "''delta'' \<noteq> [] \<and> ''delta'' \<notin> set (map dataset_id example_table)
   \<and> selected_row example_table \<lparr>current_page = 1, selected_dataset_id = Some ''delta''\<rparr>
       = Inl IndexError
   \<and> selected_row example_table initial_state = Inr None"
  using absent_selection_raises
          [of "\<lparr>current_page = 1, selected_dataset_id = Some ''delta''\<rparr>" "''delta''" example_table]
        absent_selection_raises [of initial_state "''delta''" example_table]
  by (simp add: example_ids initial_state_def)



subsection \<open>Pagination\<close>




text \<open>
  Claim C8, as stated: for 45 rows, page size 20 and page 3 the end index is 45. It fails
  on the code: \<open>end_idx\<close> is \<open>start_idx + page_size\<close>, which is not 45.
\<close>

theorem end_idx_counterexample:
  "map_sum id (end_idx \<circ> snd)
     (paginate ([0..<45]::nat list) 20 \<lparr>current_page = 3, selected_dataset_id = None\<rparr>)
     \<noteq> Inr 45"
  by (simp add: paginate_def math_ceil_div_def)

text \<open>
  Claim C8, amended: for 45 rows, page size 20 and page 3 the page stays 3 of 3 pages and
  \<open>start_idx\<close> is 40; \<open>end_idx\<close> is \<open>start_idx + page_size\<close>, that is 60, and is not clamped;
  the slice from 40 to 60 is cut at the end of the frame, so the visible slice is exactly
  the last 5 rows and ends at \<open>min (start_idx + page_size) 45\<close>, that is 45.
\<close>

theorem last_page_of_45:
  assumes "length rows = 45"
  shows "\<exists>st' v. paginate rows 20 (st\<lparr>current_page := 3\<rparr>) = Inr (st', v)
           \<and> current_page st' = 3 \<and> total_pages v = 3 \<and> start_idx v = 40 \<and> end_idx v = 60
           \<and> page_data v = drop 40 rows \<and> length (page_data v) = 5
           \<and> start_idx v + int (length (page_data v)) = min (start_idx v + 20) 45"
  using assms by (simp add: paginate_def math_ceil_div_def iloc_slice_def)

theorem last_page_of_45_witness:
  "length ([0..<45]::nat list) = 45
   \<and> map_sum id (page_data \<circ> snd)
        (paginate ([0..<45]::nat list) 20 (initial_state\<lparr>current_page := 3\<rparr>))
       = Inr [40, 41, 42, 43, 44]"
proof -
  have h: "length ([0..<45]::nat list) = 45" by simp
  have "drop 40 ([0..<45]::nat list) = [40, 41, 42, 43, 44]" by code_simp
  with h last_page_of_45 [OF h, of initial_state] show ?thesis by auto
qed

end
